theory Spec2Isabelle
  imports Main
begin

section \<open>computeSales.py: values read from JSON\<close>

text \<open>
  The program reads two JSON documents (a price catalogue and a sales ledger), each a
  list of objects, and works on the decoded Python values. The model covers objects
  whose field values are JSON scalars: \<open>null\<close>, booleans, integers, floats and
  strings. Arrays and objects nested as field values are outside the model.

  Python integers are unbounded (\<open>int\<close>). A Python \<open>str\<close> is represented by
  its UTF-8 bytes, which preserves equality, emptiness and concatenation, the only
  string operations the program uses on data. Python floats are IEEE doubles; their
  arithmetic is not part of the repository, so the float type is a type parameter
  \<open>'f\<close> and its operations are passed to every function as a record
  \<open>'f float_ops\<close>. Every theorem below holds for any such operations.

  The interpreter is CPython 3.11 on a 64-bit platform with its default settings: a
  sequence index has 63 bits and a sign, and an \<open>int\<close> of more than 4300 decimal digits
  is not converted to or from a string. Exhaustion of memory is not modelled, here or
  for any other allocation of the program.
\<close>

datatype 'f pyval =
    JNull
  | JBool bool
  | JInt int
  | JFloat 'f
  | JStr string

datatype error = TypeError | OverflowError | ValueError | AttributeError

record 'f float_ops =
  fl_of_int :: "int \<Rightarrow> 'f option"
  fl_mul :: "'f \<Rightarrow> 'f \<Rightarrow> 'f"
  fl_add :: "'f \<Rightarrow> 'f \<Rightarrow> 'f"
  fl_nonzero :: "'f \<Rightarrow> bool"
  fl_eq :: "'f \<Rightarrow> 'f \<Rightarrow> bool"
  fl_eq_int :: "'f \<Rightarrow> int \<Rightarrow> bool"
  fl_round2 :: "'f \<Rightarrow> 'f"
  fl_repr :: "'f \<Rightarrow> string"

text \<open>
  \<open>fl_of_int\<close> is the conversion Python applies to an \<open>int\<close> operand of a mixed
  operation; it is \<open>None\<close> where Python raises \<open>OverflowError\<close> (int too large to
  convert to float). \<open>fl_round2 x\<close> is \<open>round(x, 2)\<close> and \<open>fl_repr x\<close> is
  \<open>str(x)\<close>.
\<close>

text \<open>A dictionary is a finite map from keys to values; \<open>d.get(k)\<close> is \<open>None\<close> for a
  missing key.\<close>

type_synonym 'f pydict = "string \<Rightarrow> 'f pyval option"

definition dget :: "'f pydict \<Rightarrow> string \<Rightarrow> 'f pyval" where
  "dget d k = (case d k of None \<Rightarrow> JNull | Some v \<Rightarrow> v)"

subsection \<open>Python operators on these values\<close>

text \<open>Numbers: \<open>bool\<close> is a subclass of \<open>int\<close>, so \<open>True\<close> counts as 1.\<close>

datatype 'f num = NInt int | NFloat 'f

fun as_num :: "'f pyval \<Rightarrow> 'f num option" where
  "as_num (JBool b) = Some (NInt (if b then 1 else 0))"
| "as_num (JInt n) = Some (NInt n)"
| "as_num (JFloat x) = Some (NFloat x)"
| "as_num JNull = None"
| "as_num (JStr s) = None"

text \<open>Truth value testing, as in \<open>if producto and quantity\<close>.\<close>

fun truthy :: "'f float_ops \<Rightarrow> 'f pyval \<Rightarrow> bool" where
  "truthy F JNull = False"
| "truthy F (JBool b) = b"
| "truthy F (JInt n) = (n \<noteq> 0)"
| "truthy F (JFloat x) = fl_nonzero F x"
| "truthy F (JStr s) = (s \<noteq> [])"

fun es_none :: "'f pyval \<Rightarrow> bool" where
  "es_none JNull = True"
| "es_none v = False"

fun num_eq :: "'f float_ops \<Rightarrow> 'f num \<Rightarrow> 'f num \<Rightarrow> bool" where
  "num_eq F (NInt a) (NInt b) = (a = b)"
| "num_eq F (NInt a) (NFloat y) = fl_eq_int F y a"
| "num_eq F (NFloat x) (NInt b) = fl_eq_int F x b"
| "num_eq F (NFloat x) (NFloat y) = fl_eq F x y"

text \<open>The operator \<open>==\<close>: numbers compare by value, strings by their characters,
  \<open>None\<close> equals only itself, and values of different kinds are unequal.\<close>

definition py_eq :: "'f float_ops \<Rightarrow> 'f pyval \<Rightarrow> 'f pyval \<Rightarrow> bool" where
  "py_eq F a b =
     (case (as_num a, as_num b) of
        (Some x, Some y) \<Rightarrow> num_eq F x y
      | (None, None) \<Rightarrow>
          (case (a, b) of
             (JNull, JNull) \<Rightarrow> True
           | (JStr s, JStr t) \<Rightarrow> s = t
           | _ \<Rightarrow> False)
      | _ \<Rightarrow> False)"

fun num_mul :: "'f float_ops \<Rightarrow> 'f num \<Rightarrow> 'f num \<Rightarrow> error + 'f pyval" where
  "num_mul F (NInt a) (NInt b) = Inr (JInt (a * b))"
| "num_mul F (NInt a) (NFloat y) =
     (case fl_of_int F a of None \<Rightarrow> Inl OverflowError
      | Some x \<Rightarrow> Inr (JFloat (fl_mul F x y)))"
| "num_mul F (NFloat x) (NInt b) =
     (case fl_of_int F b of None \<Rightarrow> Inl OverflowError
      | Some y \<Rightarrow> Inr (JFloat (fl_mul F x y)))"
| "num_mul F (NFloat x) (NFloat y) = Inr (JFloat (fl_mul F x y))"

fun num_add :: "'f float_ops \<Rightarrow> 'f num \<Rightarrow> 'f num \<Rightarrow> error + 'f pyval" where
  "num_add F (NInt a) (NInt b) = Inr (JInt (a + b))"
| "num_add F (NInt a) (NFloat y) =
     (case fl_of_int F a of None \<Rightarrow> Inl OverflowError
      | Some x \<Rightarrow> Inr (JFloat (fl_add F x y)))"
| "num_add F (NFloat x) (NInt b) =
     (case fl_of_int F b of None \<Rightarrow> Inl OverflowError
      | Some y \<Rightarrow> Inr (JFloat (fl_add F x y)))"
| "num_add F (NFloat x) (NFloat y) = Inr (JFloat (fl_add F x y))"

text \<open>
  Sequence repetition \<open>s * n\<close>. The count must fit an index (\<open>OverflowError\<close>
  otherwise); a count below 1 gives the empty string; the length of the result, in
  characters, must fit an index too (\<open>OverflowError\<close>: repeated string is too long).
  \<open>py_len\<close> counts the characters of a string from its UTF-8 bytes: every byte but
  the continuation bytes, \<open>0x80\<close> to \<open>0xBF\<close>, starts one.
\<close>

definition ssize_max :: int where
  "ssize_max = 9223372036854775807"

definition py_len :: "string \<Rightarrow> nat" where
  "py_len s = length (filter (\<lambda>c. \<not> (128 \<le> (of_char c :: nat) \<and> (of_char c :: nat) < 192)) s)"

definition py_repeat :: "string \<Rightarrow> int \<Rightarrow> error + string" where
  "py_repeat s n =
     (if n < - ssize_max - 1 \<or> ssize_max < n then Inl OverflowError
      else if n < 1 then Inr []
      else if ssize_max div n < int (py_len s) then Inl OverflowError
      else Inr (concat (replicate (nat n) s)))"

text \<open>The operator \<open>*\<close>. Two numbers multiply; a string and an \<open>int\<close> repeat the
  string; every other combination (a \<open>None\<close> operand, a string with a float or with
  a string) raises \<open>TypeError\<close>.\<close>

definition py_mul :: "'f float_ops \<Rightarrow> 'f pyval \<Rightarrow> 'f pyval \<Rightarrow> error + 'f pyval" where
  "py_mul F a b =
     (case (as_num a, as_num b) of
        (Some x, Some y) \<Rightarrow> num_mul F x y
      | (None, Some (NInt n)) \<Rightarrow>
          (case a of
             JStr s \<Rightarrow> (case py_repeat s n of Inl e \<Rightarrow> Inl e | Inr r \<Rightarrow> Inr (JStr r))
           | _ \<Rightarrow> Inl TypeError)
      | (Some (NInt n), None) \<Rightarrow>
          (case b of
             JStr s \<Rightarrow> (case py_repeat s n of Inl e \<Rightarrow> Inl e | Inr r \<Rightarrow> Inr (JStr r))
           | _ \<Rightarrow> Inl TypeError)
      | _ \<Rightarrow> Inl TypeError)"

text \<open>The operator \<open>+\<close>: numbers add, strings concatenate, anything else raises
  \<open>TypeError\<close>.\<close>

definition py_add :: "'f float_ops \<Rightarrow> 'f pyval \<Rightarrow> 'f pyval \<Rightarrow> error + 'f pyval" where
  "py_add F a b =
     (case (as_num a, as_num b) of
        (Some x, Some y) \<Rightarrow> num_add F x y
      | (None, None) \<Rightarrow>
          (case (a, b) of
             (JStr s, JStr t) \<Rightarrow> Inr (JStr (s @ t))
           | _ \<Rightarrow> Inl TypeError)
      | _ \<Rightarrow> Inl TypeError)"

text \<open>\<open>round(v, 2)\<close>: an \<open>int\<close> (or \<open>bool\<close>) is returned as an \<open>int\<close>, a float is
  rounded, anything else has no \<open>__round__\<close> and raises \<open>TypeError\<close>.\<close>

fun py_round2 :: "'f float_ops \<Rightarrow> 'f pyval \<Rightarrow> error + 'f pyval" where
  "py_round2 F (JInt n) = Inr (JInt n)"
| "py_round2 F (JBool b) = Inr (JInt (if b then 1 else 0))"
| "py_round2 F (JFloat x) = Inr (JFloat (fl_round2 F x))"
| "py_round2 F JNull = Inl TypeError"
| "py_round2 F (JStr s) = Inl TypeError"

text \<open>\<open>str(v)\<close>, which an f-string applies to a field without a format
  specification. It is applied to the Product of a record only, a value of the
  document: the decoder admits no \<open>int\<close> of more than 4300 digits, so the limit on
  the conversion of an \<open>int\<close> to a string is not met here.\<close>

fun digitos :: "nat \<Rightarrow> string" where
  "digitos n =
     (if n < 10 then [''0123456789'' ! n]
      else digitos (n div 10) @ [''0123456789'' ! (n mod 10)])"

declare digitos.simps [simp del]

definition str_int :: "int \<Rightarrow> string" where
  "str_int n = (if n < 0 then CHR ''-'' # digitos (nat (- n)) else digitos (nat n))"

fun py_str :: "'f float_ops \<Rightarrow> 'f pyval \<Rightarrow> string" where
  "py_str F JNull = ''None''"
| "py_str F (JBool b) = (if b then ''True'' else ''False'')"
| "py_str F (JInt n) = str_int n"
| "py_str F (JFloat x) = fl_repr F x"
| "py_str F (JStr s) = s"

section \<open>calcular_costo_total\<close>

text \<open>The letter o with an acute accent, in UTF-8.\<close>

definition o_acento :: string where
  "o_acento = [CHR 0xC3, CHR 0xB3]"

definition msg_sin_precio :: "string \<Rightarrow> string" where
  "msg_sin_precio p = ''No existe precio para '' @ [CHR 0x27] @ p @ [CHR 0x27]"

definition msg_no_encontrado :: "string \<Rightarrow> string" where
  "msg_no_encontrado p =
     ''No se encontr'' @ o_acento @ '' el producto '' @ [CHR 0x27] @ p @ [CHR 0x27]"

definition msg_sin_campo :: string where
  "msg_sin_campo =
     ''No se encontr'' @ o_acento @ '' el campo '' @ [CHR 0x27] @ ''product'' @ [CHR 0x27]
       @ '' o '' @ [CHR 0x27] @ ''Quantity'' @ [CHR 0x27] @ ''.''"

text \<open>The list comprehension
  \<^verbatim>\<open>cruce = [product for product in catalogo if product.get('title') == producto]\<close>.\<close>

definition cruce :: "'f float_ops \<Rightarrow> 'f pydict list \<Rightarrow> 'f pyval \<Rightarrow> 'f pydict list" where
  "cruce F catalogo producto =
     filter (\<lambda>product. py_eq F (dget product ''title'') producto) catalogo"

text \<open>
  The body of the loop \<^verbatim>\<open>for item in ventas\<close>, on the state it changes: the running
  total \<open>costo_total\<close> and the list \<open>errores\<close>. An exception raised by the
  multiplication or by the addition leaves the body (\<open>Inl\<close>).
\<close>

definition paso ::
  "'f float_ops \<Rightarrow> 'f pydict list \<Rightarrow> 'f pydict \<Rightarrow> 'f pyval \<times> string list
     \<Rightarrow> error + ('f pyval \<times> string list)" where
  "paso F catalogo item st =
     (let costo_total = fst st; errores = snd st;
          producto = dget item ''Product'';
          quantity = dget item ''Quantity''
      in if truthy F producto \<and> truthy F quantity then
           (case cruce F catalogo producto of
              coincidente # _ \<Rightarrow>
                (let price = dget coincidente ''price''
                 in if \<not> es_none price then
                      (case py_mul F quantity price of
                         Inl e \<Rightarrow> Inl e
                       | Inr subtotal \<Rightarrow>
                           (case py_add F costo_total subtotal of
                              Inl e \<Rightarrow> Inl e
                            | Inr costo_total' \<Rightarrow> Inr (costo_total', errores)))
                    else Inr (costo_total, errores @ [msg_sin_precio (py_str F producto)]))
            | [] \<Rightarrow> Inr (costo_total, errores @ [msg_no_encontrado (py_str F producto)]))
         else Inr (costo_total, errores @ [msg_sin_campo]))"

text \<open>The loop. The list \<open>errores\<close> is the caller's object, mutated in place: what was
  appended before an exception stays appended, so the list is returned beside the
  outcome.\<close>

fun recorre ::
  "'f float_ops \<Rightarrow> 'f pydict list \<Rightarrow> 'f pydict list \<Rightarrow> 'f pyval \<Rightarrow> string list
     \<Rightarrow> string list \<times> (error + 'f pyval)" where
  "recorre F catalogo [] costo_total errores = (errores, Inr costo_total)"
| "recorre F catalogo (item # ventas) costo_total errores =
     (case paso F catalogo item (costo_total, errores) of
        Inl e \<Rightarrow> (errores, Inl e)
      | Inr st \<Rightarrow> recorre F catalogo ventas (fst st) (snd st))"

text \<open>The function: \<open>None\<close> arguments are Python's \<open>None\<close>, and the returned value
  \<open>JNull\<close> is \<open>return None\<close>. The result pairs the list \<open>errores\<close> after the call
  with the value returned or the exception raised.\<close>

definition calcular_costo_total ::
  "'f float_ops \<Rightarrow> 'f pydict list option \<Rightarrow> 'f pydict list option \<Rightarrow> string list
     \<Rightarrow> string list \<times> (error + 'f pyval)" where
  "calcular_costo_total F catalogo ventas errores =
     (case (catalogo, ventas) of
        (Some c, Some v) \<Rightarrow> recorre F c v (JInt 0) errores
      | _ \<Rightarrow> (errores, Inr JNull))"

text \<open>Line 140 of \<^verbatim>\<open>main\<close>:
  \<^verbatim>\<open>round(calcular_costo_total(catalogo, ventas, errores), 2)\<close>, for a catalogue and a
  sales list that were both read.\<close>

definition costo_redondeado ::
  "'f float_ops \<Rightarrow> 'f pydict list \<Rightarrow> 'f pydict list \<Rightarrow> string list
     \<Rightarrow> string list \<times> (error + 'f pyval)" where
  "costo_redondeado F catalogo ventas errores =
     (let c = calcular_costo_total F (Some catalogo) (Some ventas) errores
      in (fst c, case snd c of Inl e \<Rightarrow> Inl e | Inr crudo \<Rightarrow> py_round2 F crudo))"

subsection \<open>The specification's description of the reconciliation\<close>

text \<open>
  The specification describes the total as a sum over the records that contribute. Its
  terms, for comparison with the loop above: the price the lookup gives for a product
  (that of the first catalogue entry with the title, \<open>None\<close> when there is no entry or
  the entry has no price), the records that contribute, the unrounded subtotal of a
  record, the message of a record that does not contribute, and the sum, taken from
  left to right, which the first exception ends.
\<close>

definition precio_de :: "'f float_ops \<Rightarrow> 'f pydict list \<Rightarrow> 'f pyval \<Rightarrow> 'f pyval" where
  "precio_de F catalogo producto =
     (case cruce F catalogo producto of
        [] \<Rightarrow> JNull
      | coincidente # _ \<Rightarrow> dget coincidente ''price'')"

definition aporta :: "'f float_ops \<Rightarrow> 'f pydict list \<Rightarrow> 'f pydict \<Rightarrow> bool" where
  "aporta F catalogo item =
     (truthy F (dget item ''Product'') \<and> truthy F (dget item ''Quantity'')
      \<and> cruce F catalogo (dget item ''Product'') \<noteq> []
      \<and> \<not> es_none (precio_de F catalogo (dget item ''Product'')))"

definition subtotal_de :: "'f float_ops \<Rightarrow> 'f pydict list \<Rightarrow> 'f pydict \<Rightarrow> error + 'f pyval" where
  "subtotal_de F catalogo item =
     py_mul F (dget item ''Quantity'') (precio_de F catalogo (dget item ''Product''))"

definition mensaje :: "'f float_ops \<Rightarrow> 'f pydict list \<Rightarrow> 'f pydict \<Rightarrow> string" where
  "mensaje F catalogo item =
     (let producto = dget item ''Product''
      in if truthy F producto \<and> truthy F (dget item ''Quantity'') then
           (if cruce F catalogo producto = [] then msg_no_encontrado (py_str F producto)
            else msg_sin_precio (py_str F producto))
         else msg_sin_campo)"

fun suma :: "'f float_ops \<Rightarrow> 'f pyval \<Rightarrow> (error + 'f pyval) list \<Rightarrow> error + 'f pyval" where
  "suma F t [] = Inr t"
| "suma F t (Inl e # rest) = Inl e"
| "suma F t (Inr s # rest) =
     (case py_add F t s of Inl e \<Rightarrow> Inl e | Inr t' \<Rightarrow> suma F t' rest)"






section \<open>calcular_costo_total on lists that are shared objects\<close>

text \<open>
  The three arguments of \<^verbatim>\<open>calcular_costo_total\<close> are references to list objects, and
  \<^verbatim>\<open>errores.append\<close> changes one of them in place. For what depends on that, the
  function is modelled a second time on a store: a map from addresses to the lists they
  hold. The element of a list is a dictionary of a document or a string (a message that
  was appended); dictionaries are only read, so they are held by value.

  The loop \<^verbatim>\<open>for item in ventas\<close> reads the list as it is at each step, by index, so
  that it sees what is appended meanwhile when \<open>errores\<close> and \<open>ventas\<close> are the same
  list. \<^verbatim>\<open>item.get\<close>, and \<^verbatim>\<open>product.get\<close> in the list comprehension, raise
  \<open>AttributeError\<close> on a string.
\<close>

datatype 'f elem = EDict "'f pydict" | EStr string

type_synonym 'f memoria = "nat \<Rightarrow> 'f elem list"

fun es_dict :: "'f elem \<Rightarrow> bool" where
  "es_dict (EDict d) = True"
| "es_dict (EStr s) = False"

text \<open>The dictionaries of a list, when all its elements are dictionaries.\<close>

fun dicts_de :: "'f elem list \<Rightarrow> 'f pydict list option" where
  "dicts_de [] = Some []"
| "dicts_de (EDict d # xs) = (case dicts_de xs of None \<Rightarrow> None | Some ds \<Rightarrow> Some (d # ds))"
| "dicts_de (EStr s # xs) = None"

text \<open>\<^verbatim>\<open>errores.append(s)\<close>, for the list at address \<open>a\<close>.\<close>

definition anexa :: "'f memoria \<Rightarrow> nat \<Rightarrow> string \<Rightarrow> 'f memoria" where
  "anexa m a s = m(a := m a @ [EStr s])"

text \<open>The body of the loop, for an item that is a dictionary; \<open>catalogo\<close> and
  \<open>errores\<close> are addresses.\<close>

definition paso_mem ::
  "'f float_ops \<Rightarrow> 'f memoria \<Rightarrow> nat \<Rightarrow> nat \<Rightarrow> 'f pydict \<Rightarrow> 'f pyval
     \<Rightarrow> error + ('f pyval \<times> 'f memoria)" where
  "paso_mem F m catalogo errores item costo_total =
     (let producto = dget item ''Product'';
          quantity = dget item ''Quantity''
      in if truthy F producto \<and> truthy F quantity then
           (case dicts_de (m catalogo) of
              None \<Rightarrow> Inl AttributeError
            | Some entradas \<Rightarrow>
                (case cruce F entradas producto of
                   coincidente # _ \<Rightarrow>
                     (let price = dget coincidente ''price''
                      in if \<not> es_none price then
                           (case py_mul F quantity price of
                              Inl e \<Rightarrow> Inl e
                            | Inr subtotal \<Rightarrow>
                                (case py_add F costo_total subtotal of
                                   Inl e \<Rightarrow> Inl e
                                 | Inr costo_total' \<Rightarrow> Inr (costo_total', m)))
                         else Inr (costo_total,
                                anexa m errores (msg_sin_precio (py_str F producto))))
                 | [] \<Rightarrow> Inr (costo_total,
                           anexa m errores (msg_no_encontrado (py_str F producto)))))
         else Inr (costo_total, anexa m errores msg_sin_campo))"

text \<open>
  The loop, from index \<open>i\<close>. It ends on every store: a step appends strings only, so
  the dictionaries of \<open>ventas\<close> from the index on become fewer with each step, also
  when \<open>ventas\<close> is the list that grows.
\<close>

function bucle ::
  "'f float_ops \<Rightarrow> nat \<Rightarrow> nat \<Rightarrow> nat \<Rightarrow> nat \<Rightarrow> 'f pyval \<Rightarrow> 'f memoria
     \<Rightarrow> 'f memoria \<times> (error + 'f pyval)" where
  "bucle F catalogo ventas errores i costo_total m =
     (if i < length (m ventas) then
        (case m ventas ! i of
           EStr s \<Rightarrow> (m, Inl AttributeError)
         | EDict item \<Rightarrow>
             (case paso_mem F m catalogo errores item costo_total of
                Inl e \<Rightarrow> (m, Inl e)
              | Inr r \<Rightarrow> bucle F catalogo ventas errores (Suc i) (fst r) (snd r)))
      else (m, Inr costo_total))"
  by pat_completeness auto
termination
proof (relation "measure (\<lambda>(F, c, v, e, i, t, m). length (filter es_dict (drop i (m v))))")
  show "wf (measure (\<lambda>(F, c, v, e, i, t, m). length (filter es_dict (drop i (m v)))))"
    by simp
next
  fix F :: "'f float_ops" and catalogo ventas errores i :: nat and costo_total :: "'f pyval"
    and m :: "'f memoria" and item r
  assume i: "i < length (m ventas)" and it: "m ventas ! i = EDict item"
    and p: "paso_mem F m catalogo errores item costo_total = Inr r"
  have d: "drop i (m ventas) = EDict item # drop (Suc i) (m ventas)"
    using i it by (metis Cons_nth_drop_Suc)
  have "snd r = m \<or> (\<exists>s. snd r = anexa m errores s)"
    using p
    by (auto simp: paso_mem_def Let_def split: if_splits option.splits list.splits sum.splits)
  then have "length (filter es_dict (drop (Suc i) (snd r ventas)))
          < length (filter es_dict (drop i (m ventas)))"
  proof
    assume "snd r = m"
    then show ?thesis using d by simp
  next
    assume "\<exists>s. snd r = anexa m errores s"
    then obtain s where s: "snd r = anexa m errores s" by blast
    show ?thesis
    proof (cases "errores = ventas")
      case True
      then have "snd r ventas = m ventas @ [EStr s]" using s by (simp add: anexa_def)
      then show ?thesis using d i by simp
    next
      case False
      then have "snd r ventas = m ventas" using s by (simp add: anexa_def)
      then show ?thesis using d by simp
    qed
  qed
  then show "((F, catalogo, ventas, errores, Suc i, fst r, snd r),
          (F, catalogo, ventas, errores, i, costo_total, m))
        \<in> measure (\<lambda>(F, c, v, e, i, t, m). length (filter es_dict (drop i (m v))))"
    by (simp add: case_prod_beta)
qed

declare bucle.simps [simp del]

text \<open>The function: the store after the call, and the value returned or the
  exception raised.\<close>

definition calcular_costo_total_mem ::
  "'f float_ops \<Rightarrow> 'f memoria \<Rightarrow> nat option \<Rightarrow> nat option \<Rightarrow> nat
     \<Rightarrow> 'f memoria \<times> (error + 'f pyval)" where
  "calcular_costo_total_mem F m catalogo ventas errores =
     (case (catalogo, ventas) of
        (Some c, Some v) \<Rightarrow> bucle F c v errores 0 (JInt 0) m
      | _ \<Rightarrow> (m, Inr JNull))"

section \<open>The report: escribir_archivo\<close>

text \<open>
  Output is kept structured: one \<open>linea\<close> per call of \<^verbatim>\<open>print\<close> or \<^verbatim>\<open>file.write\<close>.
  Fixed text is spelled out; a table row and the two summary lines keep the values they
  are formatted from, since the characters of a formatted float belong to the float
  operations. \<open>Moneda x\<close> stands for the string \<^verbatim>\<open>f"${x:,.2f}"\<close>.
\<close>

datatype 'f moneda = Moneda 'f

datatype 'f linea =
    Texto string
  | Fila "'f pyval" "'f pyval" "'f pyval" "'f pyval"
  | CostoTotal "'f moneda"
  | TiempoTranscurrido 'f

fun es_fila :: "'f linea \<Rightarrow> bool" where
  "es_fila (Fila p q pr s) = True"
| "es_fila l = False"

text \<open>Padding of a fixed ASCII text to a width: \<^verbatim>\<open>{s:40}\<close> pads on the right,
  \<^verbatim>\<open>{s:^15}\<close> centres with the smaller half on the left.\<close>

definition izquierda :: "nat \<Rightarrow> string \<Rightarrow> string" where
  "izquierda n s = s @ replicate (n - length s) CHR '' ''"

definition centro :: "nat \<Rightarrow> string \<Rightarrow> string" where
  "centro n s =
     (let pad = n - length s; l = pad div 2
      in replicate l CHR '' '' @ s @ replicate (pad - l) CHR '' '')"

definition cabecera :: string where
  "cabecera =
     [CHR 0x0A] @ izquierda 40 ''Producto'' @ '' '' @ centro 10 ''Cantidad'' @ '' ''
       @ centro 15 ''Precio Unitario'' @ '' '' @ centro 15 ''Subtotal''"

definition regla :: string where
  "regla = replicate 80 CHR ''-''"

text \<open>A replacement field with a format specification (\<^verbatim>\<open>{producto:<40}\<close>,
  \<^verbatim>\<open>{quantity:^10}\<close>) raises \<open>TypeError\<close> for \<open>None\<close>, and \<open>ValueError\<close> for an
  \<open>int\<close> of more than 4300 digits, which a product of two values of the document can
  be; other numbers and strings accept the alignment specifications used here.\<close>

definition con_formato :: "'f pyval \<Rightarrow> error + 'f pyval" where
  "con_formato v =
     (case v of
        JNull \<Rightarrow> Inl TypeError
      | JInt n \<Rightarrow> (if 4300 < length (digitos (nat \<bar>n\<bar>)) then Inl ValueError else Inr v)
      | _ \<Rightarrow> Inr v)"

text \<open>
  The body of the loop that prints the table, which \<^verbatim>\<open>escribir_archivo\<close> and
  \<^verbatim>\<open>main\<close> both contain (the two copies differ in one space of the format
  string). \<open>Inr None\<close>: no row for this record.
\<close>

definition fila ::
  "'f float_ops \<Rightarrow> 'f pydict list \<Rightarrow> 'f pydict \<Rightarrow> error + 'f linea option" where
  "fila F catalogo item =
     (let producto = dget item ''Product'';
          quantity = dget item ''Quantity''
      in case cruce F catalogo producto of
           [] \<Rightarrow> Inr None
         | coincidente # _ \<Rightarrow>
             (let price = dget coincidente ''price''
              in case py_mul F quantity price of
                   Inl e \<Rightarrow> Inl e
                 | Inr m \<Rightarrow>
                     (case py_round2 F m of
                        Inl e \<Rightarrow> Inl e
                      | Inr subtotal \<Rightarrow>
                          (case con_formato producto of
                             Inl e \<Rightarrow> Inl e
                           | Inr p \<Rightarrow>
                               (case con_formato quantity of
                                  Inl e \<Rightarrow> Inl e
                                | Inr q \<Rightarrow>
                                    (case con_formato price of
                                       Inl e \<Rightarrow> Inl e
                                     | Inr pr \<Rightarrow>
                                         (case con_formato subtotal of
                                            Inl e \<Rightarrow> Inl e
                                          | Inr sub \<Rightarrow> Inr (Some (Fila p q pr sub)))))))))"

text \<open>The loop: the rows emitted, and the exception that ended it, if any.\<close>

fun filas ::
  "'f float_ops \<Rightarrow> 'f pydict list \<Rightarrow> 'f pydict list \<Rightarrow> 'f linea list \<times> error option" where
  "filas F catalogo [] = ([], None)"
| "filas F catalogo (item # ventas) =
     (case fila F catalogo item of
        Inl e \<Rightarrow> ([], Some e)
      | Inr r \<Rightarrow>
          (let rest = filas F catalogo ventas
           in ((case r of None \<Rightarrow> [] | Some l \<Rightarrow> [l]) @ fst rest, snd rest)))"

definition bloque_errores :: "string \<Rightarrow> (string \<Rightarrow> string) \<Rightarrow> string list \<Rightarrow> 'f linea list" where
  "bloque_errores titulo f errores =
     (if length errores > 0 then Texto titulo # map (\<lambda>e. Texto (f e)) errores else [])"

text \<open>
  \<^verbatim>\<open>escribir_archivo\<close> opens SalesResults.txt for writing, which empties it. The result
  is what the file holds when the function is left and the exception that left it, if
  any. Failures of the file system itself are not modelled.
\<close>

definition escribir_archivo ::
  "'f float_ops \<Rightarrow> 'f moneda \<Rightarrow> 'f \<Rightarrow> 'f pydict list \<Rightarrow> 'f pydict list \<Rightarrow> string list
     \<Rightarrow> 'f linea list \<times> error option" where
  "escribir_archivo F costo_form tiempo_transcurrido ventas catalogo errores =
     (let antes =
            bloque_errores (''Se presentaron errores:'' @ [CHR 0x0A])
              (\<lambda>e. ''* '' @ e @ [CHR 0x0A]) errores
            @ [Texto ([CHR 0x0A] @ ''Resultado de las ventas:''),
               Texto (cabecera @ '' '' @ [CHR 0x0A]),
               Texto (regla @ [CHR 0x0A])];
          tabla = filas F catalogo ventas
      in case snd tabla of
           Some e \<Rightarrow> (antes @ fst tabla, Some e)
         | None \<Rightarrow>
             (antes @ fst tabla
                @ [Texto (regla @ [CHR 0x0A]), CostoTotal costo_form,
                   TiempoTranscurrido tiempo_transcurrido],
              None))"

section \<open>leer_archivo_json and main\<close>

text \<open>
  What opening and decoding a path gives is part of the environment: the file is
  missing, its content is not JSON (with the decoder's message), another exception
  occurs (with its message), or it decodes. A decoded document is a list of objects, or
  \<open>None\<close> for the document \<^verbatim>\<open>null\<close>; other shapes are outside the model.
\<close>

datatype 'f lectura =
    NoEncontrado
  | ErrorJSON string
  | OtroError string
  | Leido "'f pydict list option"

definition leer_archivo_json ::
  "(string \<Rightarrow> 'f lectura) \<Rightarrow> string \<Rightarrow> 'f linea list \<times> 'f pydict list option" where
  "leer_archivo_json archivos ruta_archivo =
     (case archivos ruta_archivo of
        Leido data \<Rightarrow> ([], data)
      | NoEncontrado \<Rightarrow>
          ([Texto (''Archivo '' @ [CHR 0x27] @ ruta_archivo @ [CHR 0x27]
                     @ '' no encontrado en la ruta indicada.'')], None)
      | ErrorJSON e \<Rightarrow>
          ([Texto (''Error en la decodificaci'' @ o_acento @ ''n con el archivo JSON: '' @ e)],
           None)
      | OtroError e \<Rightarrow>
          ([Texto (''No se pudo leer el contenido del archivo JSON: '' @ e)], None))"

text \<open>\<^verbatim>\<open>f"${costo_total:,.2f}"\<close>: a number is formatted as a float (an \<open>int\<close> is
  converted first), a string has no format code \<open>f\<close>, \<open>None\<close> takes no format
  specification.\<close>

definition formato_moneda :: "'f float_ops \<Rightarrow> 'f pyval \<Rightarrow> error + 'f moneda" where
  "formato_moneda F v =
     (case as_num v of
        Some (NFloat x) \<Rightarrow> Inr (Moneda x)
      | Some (NInt n) \<Rightarrow>
          (case fl_of_int F n of None \<Rightarrow> Inl OverflowError | Some x \<Rightarrow> Inr (Moneda x))
      | None \<Rightarrow> (if es_none v then Inl TypeError else Inl ValueError))"

text \<open>How the process ends: \<^verbatim>\<open>sys.exit(n)\<close> or falling off the end of \<^verbatim>\<open>main\<close>
  (status 0), or an uncaught exception, which the interpreter reports with status 1.\<close>

datatype fin = Sale nat | Excepcion error

fun estado_salida :: "fin \<Rightarrow> nat" where
  "estado_salida (Sale n) = n"
| "estado_salida (Excepcion e) = 1"

record 'f ejecucion =
  salida :: "'f linea list"
  reporte :: "'f linea list option"
  fin :: fin

text \<open>
  \<^verbatim>\<open>main\<close>, from \<open>sys.argv\<close>, the files of the environment and the elapsed time the
  clock measures. \<open>salida\<close> lists the calls of \<^verbatim>\<open>print\<close>; \<open>reporte\<close> is the content
  given to SalesResults.txt, \<open>None\<close> when the run never opens it.
\<close>

definition main ::
  "'f float_ops \<Rightarrow> (string \<Rightarrow> 'f lectura) \<Rightarrow> 'f \<Rightarrow> string list \<Rightarrow> 'f ejecucion" where
  "main F archivos tiempo_transcurrido argv =
     (if length argv \<noteq> 3 then
        \<lparr>salida = [Texto ''Utilice: !python computeSales.py Catalogo.json Ventas.json''],
         reporte = None, fin = Sale 1\<rparr>
      else
        (let r1 = leer_archivo_json archivos (argv ! 1);
             r2 = leer_archivo_json archivos (argv ! 2);
             leido = fst r1 @ fst r2
         in case (snd r1, snd r2) of
              (Some catalogo, Some ventas) \<Rightarrow>
                (let c = costo_redondeado F catalogo ventas [];
                     errores = fst c
                 in case snd c of
                      Inl e \<Rightarrow> \<lparr>salida = leido, reporte = None, fin = Excepcion e\<rparr>
                    | Inr costo_total \<Rightarrow>
                        (let avisos = leido @
                               bloque_errores
                                 ([CHR 0x0A] @ ''Se presentaron los siguientes errores:'')
                                 (\<lambda>e. ''* '' @ e) errores
                         in if es_none costo_total then
                              \<lparr>salida = avisos, reporte = None, fin = Sale 0\<rparr>
                            else
                              (case formato_moneda F costo_total of
                                 Inl e \<Rightarrow> \<lparr>salida = avisos, reporte = None, fin = Excepcion e\<rparr>
                               | Inr costo_form \<Rightarrow>
                                   (let inicio = avisos @
                                          [Texto ([CHR 0x0A] @ ''Resultado de las ventas:''),
                                           Texto cabecera, Texto regla];
                                        tabla = filas F catalogo ventas
                                    in case snd tabla of
                                         Some e \<Rightarrow>
                                           \<lparr>salida = inicio @ fst tabla, reporte = None,
                                            fin = Excepcion e\<rparr>
                                       | None \<Rightarrow>
                                           (let w = escribir_archivo F costo_form
                                                  tiempo_transcurrido ventas catalogo errores
                                            in \<lparr>salida = inicio @ fst tabla @
                                                  [Texto regla, CostoTotal costo_form,
                                                   TiempoTranscurrido tiempo_transcurrido],
                                                reporte = Some (fst w),
                                                fin = (case snd w of None \<Rightarrow> Sale 0
                                                       | Some e \<Rightarrow> Excepcion e)\<rparr>)))))
            | _ \<Rightarrow> \<lparr>salida = leido, reporte = None, fin = Sale 0\<rparr>))"

section \<open>An interpretation of the float operations for the examples\<close>

text \<open>
  The examples need concrete float operations. \<open>flotantes_enteros\<close> reads a float as
  a whole number and computes exactly. This agrees with IEEE doubles on whole numbers of
  magnitude below \<open>2^53\<close> (and their \<open>repr\<close>, such as \<open>6.0\<close>, below \<open>10^16\<close>); the
  examples stay in that range.
\<close>

definition flotantes_enteros :: "int float_ops" where
  "flotantes_enteros =
     \<lparr>fl_of_int = (\<lambda>n. Some n),
      fl_mul = (\<lambda>x y. x * y),
      fl_add = (\<lambda>x y. x + y),
      fl_nonzero = (\<lambda>x. x \<noteq> 0),
      fl_eq = (\<lambda>x y. x = y),
      fl_eq_int = (\<lambda>x n. x = n),
      fl_round2 = (\<lambda>x. x),
      fl_repr = (\<lambda>x. str_int x @ ''.0'')\<rparr>"

section \<open>Example documents\<close>

text \<open>
  A catalogue with a repeated title and an entry without price, and a ledger whose
  five records take every branch of the loop: a sale of a priced product, an unknown
  product, a product without price, a quantity of zero, and a second priced sale.
\<close>

definition ej_catalogo :: "int pydict list" where
  "ej_catalogo =
     [[''title'' \<mapsto> JStr ''Pen'', ''price'' \<mapsto> JFloat 2],
      [''title'' \<mapsto> JStr ''Ink''],
      [''title'' \<mapsto> JStr ''Pen'', ''price'' \<mapsto> JInt 5]]"

definition ej_ventas :: "int pydict list" where
  "ej_ventas =
     [[''Product'' \<mapsto> JStr ''Pen'', ''Quantity'' \<mapsto> JInt 4],
      [''Product'' \<mapsto> JStr ''Eraser'', ''Quantity'' \<mapsto> JInt 1],
      [''Product'' \<mapsto> JStr ''Ink'', ''Quantity'' \<mapsto> JInt 2],
      [''Product'' \<mapsto> JStr ''Pen'', ''Quantity'' \<mapsto> JInt 0],
      [''Product'' \<mapsto> JStr ''Pen'', ''Quantity'' \<mapsto> JInt 3]]"

text \<open>A catalogue in which the title \<open>Pen\<close> occurs twice, after an entry that
  differs from it in case only.\<close>

definition ej_repetidos :: "int pydict list" where
  "ej_repetidos =
     [[''title'' \<mapsto> JStr ''pen'', ''price'' \<mapsto> JInt 1],
      [''title'' \<mapsto> JStr ''Pen'', ''price'' \<mapsto> JInt 2],
      [''title'' \<mapsto> JStr ''Pen'', ''price'' \<mapsto> JInt 3]]"

text \<open>A ledger whose records all give a row of the table: the first, second and fourth
  record of \<open>ej_ventas\<close>.\<close>

definition ej_ventas_sin_tinta :: "int pydict list" where
  "ej_ventas_sin_tinta =
     [[''Product'' \<mapsto> JStr ''Pen'', ''Quantity'' \<mapsto> JInt 4],
      [''Product'' \<mapsto> JStr ''Eraser'', ''Quantity'' \<mapsto> JInt 1],
      [''Product'' \<mapsto> JStr ''Pen'', ''Quantity'' \<mapsto> JInt 0]]"

text \<open>A store that holds the example catalogue at address 0 and the example ledger at
  address 1.\<close>

definition ej_memoria :: "int memoria" where
  "ej_memoria = (\<lambda>a. [])(0 := map EDict ej_catalogo, 1 := map EDict ej_ventas)"

text \<open>A file system: the catalogue, the two ledgers, a file that is not JSON, and no
  other file.\<close>

definition ej_archivos :: "string \<Rightarrow> int lectura" where
  "ej_archivos ruta =
     (if ruta = ''Catalogo.json'' then Leido (Some ej_catalogo)
      else if ruta = ''Ventas.json'' then Leido (Some ej_ventas)
      else if ruta = ''SinTinta.json'' then Leido (Some ej_ventas_sin_tinta)
      else if ruta = ''Roto.json'' then ErrorJSON ''Expecting value: line 1 column 1 (char 0)''
      else NoEncontrado)"

section \<open>Properties of the loop\<close>

lemmas evalua =
  calcular_costo_total_def paso_def cruce_def py_eq_def dget_def py_mul_def py_add_def
  flotantes_enteros_def py_repeat_def py_len_def ssize_max_def

lemma ej_calculo:
  "calcular_costo_total flotantes_enteros (Some ej_catalogo) (Some ej_ventas) [] =
     ([msg_no_encontrado ''Eraser'', msg_sin_precio ''Ink'', msg_sin_campo], Inr (JFloat 14))"
  by (simp add: evalua ej_catalogo_def ej_ventas_def)

text \<open>The body of the loop, by whether the record contributes.\<close>

lemma paso_aporta:
  assumes "aporta F c item"
  shows "paso F c item (t, es) =
     (case subtotal_de F c item of
        Inl e \<Rightarrow> Inl e
      | Inr s \<Rightarrow> (case py_add F t s of Inl e \<Rightarrow> Inl e | Inr t' \<Rightarrow> Inr (t', es)))"
  using assms
  by (auto simp: aporta_def paso_def subtotal_de_def precio_de_def Let_def split: list.splits)

lemma paso_no_aporta:
  assumes "\<not> aporta F c item"
  shows "paso F c item (t, es) = Inr (t, es @ [mensaje F c item])"
  using assms
  by (auto simp: aporta_def paso_def mensaje_def precio_de_def Let_def split: list.splits)

lemma recorre_aporta:
  assumes "aporta F c item"
  shows "recorre F c (item # v) t es =
     (case subtotal_de F c item of
        Inl e \<Rightarrow> (es, Inl e)
      | Inr s \<Rightarrow>
          (case py_add F t s of Inl e \<Rightarrow> (es, Inl e) | Inr t' \<Rightarrow> recorre F c v t' es))"
  using assms by (simp add: paso_aporta split: sum.splits)

lemma recorre_no_aporta:
  assumes "\<not> aporta F c item"
  shows "recorre F c (item # v) t es = recorre F c v t (es @ [mensaje F c item])"
  using assms by (simp add: paso_no_aporta)

text \<open>The value the loop returns is the sum of the subtotals of the contributing
  records, whatever the list of errors it started with.\<close>

lemma recorre_snd:
  "snd (recorre F c v t es) = suma F t (map (subtotal_de F c) (filter (aporta F c) v))"
proof (induction v arbitrary: t es)
  case Nil
  show ?case by simp
next
  case (Cons item v)
  show ?case
  proof (cases "aporta F c item")
    case True
    then show ?thesis
      using Cons.IH by (simp add: paso_aporta split: sum.splits)
  next
    case False
    then show ?thesis
      using Cons.IH by (simp add: paso_no_aporta)
  qed
qed


text \<open>The loop only appends to the list of errors, and what it appends does not depend
  on what the list held.\<close>

lemma recorre_anexa:
  "\<exists>nuevos. \<forall>es. fst (recorre F c v t es) = es @ nuevos"
proof (induction v arbitrary: t)
  case Nil
  show ?case by simp
next
  case (Cons item v)
  show ?case
  proof (cases "aporta F c item")
    case False
    obtain n where n: "\<forall>es. fst (recorre F c v t es) = es @ n"
      using Cons.IH by blast
    have "\<forall>es. fst (recorre F c (item # v) t es) = es @ (mensaje F c item # n)"
      by (simp add: recorre_no_aporta [OF False] n del: recorre.simps)
    then show ?thesis by blast
  next
    case True
    note ap = recorre_aporta [OF True]
    show ?thesis
    proof (cases "subtotal_de F c item")
      case (Inl e)
      then have "\<forall>es. fst (recorre F c (item # v) t es) = es @ []"
        by (simp add: ap del: recorre.simps)
      then show ?thesis by blast
    next
      case (Inr s)
      show ?thesis
      proof (cases "py_add F t s")
        case (Inl e)
        then have "\<forall>es. fst (recorre F c (item # v) t es) = es @ []"
          by (simp add: ap Inr del: recorre.simps)
        then show ?thesis by blast
      next
        case (Inr t')
        obtain n where n: "\<forall>es. fst (recorre F c v t' es) = es @ n"
          using Cons.IH by blast
        have "\<forall>es. fst (recorre F c (item # v) t es) = es @ n"
          by (simp add: ap \<open>subtotal_de F c item = Inr s\<close> Inr n del: recorre.simps)
        then show ?thesis by blast
      qed
    qed
  qed
qed

lemma py_eq_JStr: "py_eq F v (JStr s) = (v = JStr s)"
  by (cases v) (auto simp: py_eq_def)

subsection \<open>The total\<close>

text \<open>
  C1. For every catalogue and sales list, the value \<^verbatim>\<open>calcular_costo_total\<close> returns is
  the sum, from left to right and starting from 0, of the unrounded products
  \<open>quantity * price\<close> of exactly the records that contribute: those with a truthy
  Product and Quantity whose product has a catalogue entry, the first with that title,
  with a price. (An exception of a product or of an addition ends the sum as it ends the
  loop.) The rounding to 2 decimals is applied once, by \<^verbatim>\<open>main\<close>, to the returned
  total.
\<close>

theorem costo_total_es_la_suma:
  "snd (calcular_costo_total F (Some catalogo) (Some ventas) errores) =
     suma F (JInt 0) (map (subtotal_de F catalogo) (filter (aporta F catalogo) ventas))
   \<and> snd (costo_redondeado F catalogo ventas errores) =
     (case suma F (JInt 0) (map (subtotal_de F catalogo) (filter (aporta F catalogo) ventas)) of
        Inl e \<Rightarrow> Inl e
      | Inr t \<Rightarrow> py_round2 F t)"
proof -
  let ?suma = "suma F (JInt 0) (map (subtotal_de F catalogo) (filter (aporta F catalogo) ventas))"
  have "calcular_costo_total F (Some catalogo) (Some ventas) errores =
      recorre F catalogo ventas (JInt 0) errores"
    by (simp add: calcular_costo_total_def)
  then have devuelto: "snd (calcular_costo_total F (Some catalogo) (Some ventas) errores) = ?suma"
    by (simp add: recorre_snd)
  have "snd (costo_redondeado F catalogo ventas errores) =
      (case snd (calcular_costo_total F (Some catalogo) (Some ventas) errores) of
         Inl e \<Rightarrow> Inl e
       | Inr crudo \<Rightarrow> py_round2 F crudo)"
    by (simp add: costo_redondeado_def Let_def)
  then have "snd (costo_redondeado F catalogo ventas errores) =
      (case ?suma of Inl e \<Rightarrow> Inl e | Inr t \<Rightarrow> py_round2 F t)"
    by (simp only: devuelto)
  with devuelto show ?thesis by simp
qed

text \<open>On the example: 4 * 2.0 + 3 * 2.0 = 14.0; the other three records add nothing.\<close>

theorem costo_total_es_la_suma_testigo:
  "snd (calcular_costo_total flotantes_enteros (Some ej_catalogo) (Some ej_ventas) []) =
     Inr (JFloat 14)
   \<and> suma flotantes_enteros (JInt 0)
        (map (subtotal_de flotantes_enteros ej_catalogo)
           (filter (aporta flotantes_enteros ej_catalogo) ej_ventas)) = Inr (JFloat 14)
   \<and> snd (costo_redondeado flotantes_enteros ej_catalogo ej_ventas []) = Inr (JFloat 14)"
proof -
  note t = costo_total_es_la_suma [of flotantes_enteros ej_catalogo ej_ventas "[]"]
  have a: "snd (calcular_costo_total flotantes_enteros (Some ej_catalogo) (Some ej_ventas) []) =
     Inr (JFloat 14)"
    by (simp add: ej_calculo)
  have b: "suma flotantes_enteros (JInt 0)
        (map (subtotal_de flotantes_enteros ej_catalogo)
           (filter (aporta flotantes_enteros ej_catalogo) ej_ventas)) = Inr (JFloat 14)"
    using t a by simp
  have c: "snd (costo_redondeado flotantes_enteros ej_catalogo ej_ventas []) = Inr (JFloat 14)"
    using t b by (simp add: flotantes_enteros_def)
  show ?thesis using a b c by simp
qed

subsection \<open>One outcome for each record\<close>

text \<open>
  C2, as amended. For every sales record on which the body of the loop completes (the
  product \<open>quantity * price\<close> and its addition to the running total raise nothing),
  exactly one of two things has happened: the record has added its subtotal to the
  running total and the list of errors is unchanged, or one message has been appended to
  the list of errors and the running total is unchanged; never both.
\<close>

theorem paso_exactamente_uno:
  assumes "paso F catalogo item (costo_total, errores) = Inr (costo_total', errores')"
  shows "((errores' = errores \<and>
            (\<exists>s. subtotal_de F catalogo item = Inr s \<and> py_add F costo_total s = Inr costo_total'))
          \<or> (costo_total' = costo_total \<and> (\<exists>m. errores' = errores @ [m])))
       \<and> \<not> (errores' = errores \<and> (\<exists>m. errores' = errores @ [m]))"
proof (cases "aporta F catalogo item")
  case True
  then show ?thesis
    using assms by (auto simp: paso_aporta split: sum.splits)
next
  case False
  then show ?thesis
    using assms by (auto simp: paso_no_aporta)
qed

text \<open>The first record of the example: 4 pens at 2.0 add 8.0 to a total of 0 and leave
  the list of errors as it was.\<close>

theorem paso_exactamente_uno_testigo:
  "paso flotantes_enteros ej_catalogo [''Product'' \<mapsto> JStr ''Pen'', ''Quantity'' \<mapsto> JInt 4]
     (JInt 0, [msg_sin_campo]) = Inr (JFloat 8, [msg_sin_campo])
   \<and> (\<exists>s. subtotal_de flotantes_enteros ej_catalogo
            [''Product'' \<mapsto> JStr ''Pen'', ''Quantity'' \<mapsto> JInt 4] = Inr s
          \<and> py_add flotantes_enteros (JInt 0) s = Inr (JFloat 8))
   \<and> \<not> ([msg_sin_campo] = [msg_sin_campo] \<and> (\<exists>m. [msg_sin_campo] = [msg_sin_campo] @ [m]))"
proof -
  have a: "paso flotantes_enteros ej_catalogo [''Product'' \<mapsto> JStr ''Pen'', ''Quantity'' \<mapsto> JInt 4]
     (JInt 0, [msg_sin_campo]) = Inr (JFloat 8, [msg_sin_campo])"
    by (simp add: evalua ej_catalogo_def)
  show ?thesis
    using a paso_exactamente_uno [OF a] by simp
qed

text \<open>
  C2 as stated fails where the arithmetic raises. The catalogue gives the price of a pen
  as the string \<open>1.5\<close>; the sale of 2 pens computes \<open>2 * '1.5'\<close>, the string
  \<open>1.51.5\<close>, and \<open>0 + '1.51.5'\<close> raises \<open>TypeError\<close>. The record has added nothing
  to a total and no message to the list.
\<close>

theorem sin_aporte_ni_mensaje_contraejemplo:
  "calcular_costo_total flotantes_enteros
     (Some [[''title'' \<mapsto> JStr ''Pen'', ''price'' \<mapsto> JStr ''1.5'']])
     (Some [[''Product'' \<mapsto> JStr ''Pen'', ''Quantity'' \<mapsto> JInt 2]]) [] = ([], Inl TypeError)"
  by (simp add: evalua)

subsection \<open>Exceptions\<close>























subsection \<open>The three kinds of record that add nothing\<close>

text \<open>
  C5, as amended. For every sales record with a truthy Product and Quantity whose product
  equals the title of no catalogue entry, the body of the loop appends the message
  \<open>msg_no_encontrado\<close>, the Spanish sentence \<^verbatim>\<open>No se encontro el producto '<product>'\<close>
  (its \<open>o\<close> with an acute accent), with the record's product in place of
  \<^verbatim>\<open><product>\<close> (\<open>py_str\<close> of a string is the string itself), and leaves the running
  total as it was.
\<close>

theorem producto_no_encontrado:
  assumes "truthy F (dget item ''Product'')" and "truthy F (dget item ''Quantity'')"
    and "\<forall>product\<in>set catalogo. \<not> py_eq F (dget product ''title'') (dget item ''Product'')"
  shows "paso F catalogo item (costo_total, errores) =
     Inr (costo_total, errores @ [msg_no_encontrado (py_str F (dget item ''Product''))])"
proof -
  have "cruce F catalogo (dget item ''Product'') = []"
    using assms(3) by (simp add: cruce_def filter_empty_conv)
  then show ?thesis
    using assms(1,2) by (simp add: paso_def Let_def)
qed

text \<open>The second record of the example, an eraser, met with a running total of 8.0.\<close>

theorem producto_no_encontrado_testigo:
  "paso flotantes_enteros ej_catalogo [''Product'' \<mapsto> JStr ''Eraser'', ''Quantity'' \<mapsto> JInt 1]
     (JFloat 8, []) =
   Inr (JFloat 8,
     [''No se encontr'' @ o_acento @ '' el producto '' @ [CHR 0x27] @ ''Eraser'' @ [CHR 0x27]])"
proof -
  let ?item = "[''Product'' \<mapsto> JStr ''Eraser'', ''Quantity'' \<mapsto> JInt (1::int)]"
  have a: "truthy flotantes_enteros (dget ?item ''Product'')" by (simp add: dget_def)
  have b: "truthy flotantes_enteros (dget ?item ''Quantity'')" by (simp add: dget_def)
  have c: "\<forall>product\<in>set ej_catalogo.
      \<not> py_eq flotantes_enteros (dget product ''title'') (dget ?item ''Product'')"
    by (simp add: ej_catalogo_def dget_def py_eq_def)
  show ?thesis
    using producto_no_encontrado [OF a b c, of "JFloat 8" "[]"]
    by (simp add: dget_def msg_no_encontrado_def)
qed

text \<open>
  C5 as stated names the message \<^verbatim>\<open>product 'Eraser' not found\<close>. The message the code
  appends for the eraser is the Spanish one.
\<close>

theorem mensaje_no_encontrado_contraejemplo:
  "fst (calcular_costo_total flotantes_enteros (Some ej_catalogo)
          (Some [[''Product'' \<mapsto> JStr ''Eraser'', ''Quantity'' \<mapsto> JInt 1]]) []) =
     [''No se encontr'' @ o_acento @ '' el producto '' @ [CHR 0x27] @ ''Eraser'' @ [CHR 0x27]]
   \<and> fst (calcular_costo_total flotantes_enteros (Some ej_catalogo)
          (Some [[''Product'' \<mapsto> JStr ''Eraser'', ''Quantity'' \<mapsto> JInt 1]]) []) \<noteq>
     [''product '' @ [CHR 0x27] @ ''Eraser'' @ [CHR 0x27] @ '' not found'']"
  by (simp add: evalua ej_catalogo_def msg_no_encontrado_def)

text \<open>
  C6. For every sales record whose Product or Quantity is absent or falsy (a Quantity of 0
  included), the body of the loop appends exactly one message, leaves the running total
  as it was, and does not consult the catalogue: the outcome is the same with any other
  catalogue.
\<close>

theorem campo_ausente:
  assumes "\<not> (truthy F (dget item ''Product'') \<and> truthy F (dget item ''Quantity''))"
  shows "paso F catalogo item (costo_total, errores) =
           Inr (costo_total, errores @ [msg_sin_campo])
       \<and> paso F otro_catalogo item (costo_total, errores) =
           paso F catalogo item (costo_total, errores)"
  using assms by (auto simp: paso_def Let_def)

text \<open>The fourth record of the example: a Quantity of 0 for a product the catalogue
  prices.\<close>

theorem campo_ausente_testigo:
  "\<not> (truthy flotantes_enteros
         (dget [''Product'' \<mapsto> JStr ''Pen'', ''Quantity'' \<mapsto> JInt 0] ''Product'')
      \<and> truthy flotantes_enteros
          (dget [''Product'' \<mapsto> JStr ''Pen'', ''Quantity'' \<mapsto> JInt 0] ''Quantity''))
   \<and> paso flotantes_enteros ej_catalogo [''Product'' \<mapsto> JStr ''Pen'', ''Quantity'' \<mapsto> JInt 0]
       (JFloat 8, []) = Inr (JFloat 8, [msg_sin_campo])
   \<and> paso flotantes_enteros [] [''Product'' \<mapsto> JStr ''Pen'', ''Quantity'' \<mapsto> JInt 0]
       (JFloat 8, []) =
     paso flotantes_enteros ej_catalogo [''Product'' \<mapsto> JStr ''Pen'', ''Quantity'' \<mapsto> JInt 0]
       (JFloat 8, [])"
proof -
  have h: "\<not> (truthy flotantes_enteros
         (dget [''Product'' \<mapsto> JStr ''Pen'', ''Quantity'' \<mapsto> JInt 0] ''Product'')
      \<and> truthy flotantes_enteros
          (dget [''Product'' \<mapsto> JStr ''Pen'', ''Quantity'' \<mapsto> JInt 0] ''Quantity''))"
    by (simp add: dget_def)
  show ?thesis
    using h campo_ausente [OF h, of ej_catalogo "JFloat 8" "[]" "[]"] by simp
qed

subsection \<open>The lookup\<close>

text \<open>
  C7. When the catalogue holds entries whose title is the sale's product, a string, the
  lookup of \<^verbatim>\<open>calcular_costo_total\<close> selects the first of them in catalogue order:
  for a catalogue that is \<open>antes @ entrada # despues\<close>, where the title of \<open>entrada\<close> is
  the string and no title in \<open>antes\<close> is, the list \<open>cruce\<close> begins with \<open>entrada\<close>
  and the body of the loop does what it would do with \<open>entrada\<close> as the whole
  catalogue. The match is equality of strings, character for character: \<open>cruce\<close> keeps
  exactly the entries whose title is that string.
\<close>

theorem cruce_primera_coincidencia:
  assumes "catalogo = antes @ entrada # despues"
    and "dget entrada ''title'' = JStr s"
    and "\<forall>product\<in>set antes. dget product ''title'' \<noteq> JStr s"
  shows "cruce F catalogo (JStr s) = entrada # cruce F despues (JStr s)
       \<and> cruce F catalogo (JStr s) =
           filter (\<lambda>product. dget product ''title'' = JStr s) catalogo
       \<and> (dget item ''Product'' = JStr s \<longrightarrow>
            paso F catalogo item st = paso F [entrada] item st)"
proof -
  have f: "\<And>c. cruce F c (JStr s) = filter (\<lambda>product. dget product ''title'' = JStr s) c"
    by (simp add: cruce_def py_eq_JStr)
  have "filter (\<lambda>product. dget product ''title'' = JStr s) antes = []"
    using assms(3) by (simp add: filter_empty_conv)
  then have a: "cruce F catalogo (JStr s) = entrada # cruce F despues (JStr s)"
    using assms(1,2) by (simp add: f)
  have b: "cruce F [entrada] (JStr s) = [entrada]"
    using assms(2) by (simp add: f)
  have "dget item ''Product'' = JStr s \<Longrightarrow> paso F catalogo item st = paso F [entrada] item st"
    by (simp add: paso_def Let_def a b)
  then show ?thesis using a f by blast
qed

text \<open>In \<open>ej_repetidos\<close> the title \<open>Pen\<close> is that of the second and of the third
  entry, after \<open>pen\<close>: the lookup begins with the second, and ten pens cost 10 * 2.\<close>

theorem cruce_primera_coincidencia_testigo:
  "cruce flotantes_enteros ej_repetidos (JStr ''Pen'') =
     [''title'' \<mapsto> JStr ''Pen'', ''price'' \<mapsto> JInt 2]
       # cruce flotantes_enteros [[''title'' \<mapsto> JStr ''Pen'', ''price'' \<mapsto> JInt 3]] (JStr ''Pen'')
   \<and> paso flotantes_enteros ej_repetidos [''Product'' \<mapsto> JStr ''Pen'', ''Quantity'' \<mapsto> JInt 10]
        (JInt 0, []) =
      paso flotantes_enteros [[''title'' \<mapsto> JStr ''Pen'', ''price'' \<mapsto> JInt 2]]
        [''Product'' \<mapsto> JStr ''Pen'', ''Quantity'' \<mapsto> JInt 10] (JInt 0, [])
   \<and> paso flotantes_enteros ej_repetidos [''Product'' \<mapsto> JStr ''Pen'', ''Quantity'' \<mapsto> JInt 10]
        (JInt 0, []) = Inr (JInt 20, [])"
proof -
  let ?antes = "[[''title'' \<mapsto> JStr ''pen'', ''price'' \<mapsto> JInt (1::int)]]"
  let ?entrada = "[''title'' \<mapsto> JStr ''Pen'', ''price'' \<mapsto> JInt (2::int)]"
  let ?despues = "[[''title'' \<mapsto> JStr ''Pen'', ''price'' \<mapsto> JInt (3::int)]]"
  let ?item = "[''Product'' \<mapsto> JStr ''Pen'', ''Quantity'' \<mapsto> JInt (10::int)]"
  have a: "ej_repetidos = ?antes @ ?entrada # ?despues"
    by (simp add: ej_repetidos_def)
  have b: "dget ?entrada ''title'' = JStr ''Pen''"
    by (simp add: dget_def)
  have c: "\<forall>product\<in>set ?antes. dget product ''title'' \<noteq> JStr ''Pen''"
    by (simp add: dget_def)
  have d: "dget ?item ''Product'' = JStr ''Pen''"
    by (simp add: dget_def)
  note t = cruce_primera_coincidencia [OF a b c, of flotantes_enteros ?item "(JInt 0, [])"]
  have e: "paso flotantes_enteros ej_repetidos ?item (JInt 0, []) = Inr (JInt 20, [])"
    by (simp add: evalua ej_repetidos_def)
  have g1: "cruce flotantes_enteros ej_repetidos (JStr ''Pen'') =
      ?entrada # cruce flotantes_enteros ?despues (JStr ''Pen'')"
    using t by blast
  have g2: "paso flotantes_enteros ej_repetidos ?item (JInt 0, []) =
      paso flotantes_enteros [?entrada] ?item (JInt 0, [])"
    using t d by blast
  show ?thesis
    by (intro conjI g1 g2 e)
qed

subsection \<open>Two runs, and the None arguments\<close>

text \<open>The body of the loop on two stores that hold the same catalogue, each with an
  errors list of its own that is not the catalogue: the same outcome, and the same
  strings appended.\<close>

lemma paso_mem_indep:
  assumes "e \<noteq> c" and "e' \<noteq> c" and "m c = m' c"
  shows "(\<exists>x. paso_mem F m c e item t = Inl x \<and> paso_mem F m' c e' item t = Inl x)
       \<or> (\<exists>t' nuevo. paso_mem F m c e item t = Inr (t', m(e := m e @ nuevo))
                      \<and> paso_mem F m' c e' item t = Inr (t', m'(e' := m' e' @ nuevo)))"
  unfolding paso_mem_def Let_def anexa_def assms(3)
  by (auto split: option.splits list.splits sum.splits intro: exI [of _ "[]"])

text \<open>The same for the loop, by induction on the number of items left. The loop writes
  to its errors list only.\<close>

lemma bucle_indep:
  assumes "e \<noteq> c" and "e \<noteq> v" and "e' \<noteq> c" and "e' \<noteq> v"
    and "m c = m' c" and "m v = m' v"
  shows "\<exists>nuevos r. bucle F c v e i t m = (m(e := m e @ nuevos), r)
                  \<and> bucle F c v e' i t m' = (m'(e' := m' e' @ nuevos), r)"
  using assms(5,6)
proof (induction "length (m v) - i" arbitrary: i t m m')
  case 0
  then have "\<not> i < length (m v)" "\<not> i < length (m' v)" by simp_all
  then have "bucle F c v e i t m = (m(e := m e @ []), Inr t)"
    and "bucle F c v e' i t m' = (m'(e' := m' e' @ []), Inr t)"
    by (simp_all add: bucle.simps)
  then show ?case by blast
next
  case (Suc n)
  then have i: "i < length (m v)" "i < length (m' v)" by simp_all
  show ?case
  proof (cases "m v ! i")
    case (EStr s)
    then have "bucle F c v e i t m = (m(e := m e @ []), Inl AttributeError)"
      and "bucle F c v e' i t m' = (m'(e' := m' e' @ []), Inl AttributeError)"
      using i Suc.prems by (simp_all add: bucle.simps)
    then show ?thesis by blast
  next
    case (EDict item)
    then have item': "m' v ! i = EDict item" using Suc.prems by simp
    have "(\<exists>x. paso_mem F m c e item t = Inl x \<and> paso_mem F m' c e' item t = Inl x)
       \<or> (\<exists>t' nuevo. paso_mem F m c e item t = Inr (t', m(e := m e @ nuevo))
                      \<and> paso_mem F m' c e' item t = Inr (t', m'(e' := m' e' @ nuevo)))"
      using assms(1) assms(3) Suc.prems(1) by (rule paso_mem_indep)
    then show ?thesis
    proof
      assume "\<exists>x. paso_mem F m c e item t = Inl x \<and> paso_mem F m' c e' item t = Inl x"
      then obtain x where "paso_mem F m c e item t = Inl x" "paso_mem F m' c e' item t = Inl x"
        by blast
      then have "bucle F c v e i t m = (m(e := m e @ []), Inl x)"
        and "bucle F c v e' i t m' = (m'(e' := m' e' @ []), Inl x)"
        using i EDict item' by (simp_all add: bucle.simps)
      then show ?thesis by blast
    next
      assume "\<exists>t' nuevo. paso_mem F m c e item t = Inr (t', m(e := m e @ nuevo))
                      \<and> paso_mem F m' c e' item t = Inr (t', m'(e' := m' e' @ nuevo))"
      then obtain t' nuevo where
        p: "paso_mem F m c e item t = Inr (t', m(e := m e @ nuevo))"
           "paso_mem F m' c e' item t = Inr (t', m'(e' := m' e' @ nuevo))"
        by blast
      let ?m1 = "m(e := m e @ nuevo)" and ?m1' = "m'(e' := m' e' @ nuevo)"
      have same: "?m1 c = ?m1' c" "?m1 v = ?m1' v"
        using assms(1-4) Suc.prems by simp_all
      have len: "n = length (?m1 v) - Suc i"
        using Suc.hyps(2) assms(2) by simp
      from Suc.hyps(1) [OF len same]
      obtain nuevos r where
        r: "bucle F c v e (Suc i) t' ?m1 = (?m1(e := ?m1 e @ nuevos), r)"
           "bucle F c v e' (Suc i) t' ?m1' = (?m1'(e' := ?m1' e' @ nuevos), r)"
        by blast
      have "bucle F c v e i t m = (m(e := m e @ (nuevo @ nuevos)), r)"
        using i EDict p(1) r(1) by (simp add: bucle.simps [of F c v e i t m])
      moreover have "bucle F c v e' i t m' = (m'(e' := m' e' @ (nuevo @ nuevos)), r)"
        using i item' p(2) r(2) by (simp add: bucle.simps [of F c v e' i t m'])
      ultimately show ?thesis by blast
    qed
  qed
qed

text \<open>
  On lists of dictionaries, with an errors list that is neither of them, the function on
  the store does what \<open>calcular_costo_total\<close> above does: it returns the same and
  appends the same messages.
\<close>

lemma recorre_desde_vacia:
  "recorre F c v t es = (es @ fst (recorre F c v t []), snd (recorre F c v t []))"
proof -
  obtain n where n: "\<forall>es. fst (recorre F c v t es) = es @ n"
    using recorre_anexa by blast
  have "fst (recorre F c v t es) = es @ fst (recorre F c v t [])"
    using n by simp
  moreover have "snd (recorre F c v t es) = snd (recorre F c v t [])"
    by (simp add: recorre_snd)
  ultimately show ?thesis by (simp add: prod_eq_iff)
qed

lemma paso_mem_paso:
  assumes "dicts_de (m c) = Some cat"
  shows "paso_mem F m c e item t =
     (case paso F cat item (t, []) of
        Inl x \<Rightarrow> Inl x
      | Inr st \<Rightarrow> Inr (fst st, m(e := m e @ map EStr (snd st))))"
  unfolding paso_mem_def paso_def Let_def anexa_def assms
  by (auto split: list.splits sum.splits)

lemma dicts_de_drop:
  "dicts_de (drop i xs) = Some (d # ds) \<Longrightarrow>
   i < length xs \<and> xs ! i = EDict d \<and> dicts_de (drop (Suc i) xs) = Some ds"
proof -
  assume a: "dicts_de (drop i xs) = Some (d # ds)"
  then have "drop i xs \<noteq> []" by auto
  then have i: "i < length xs" by simp
  then have "drop i xs = xs ! i # drop (Suc i) xs" by (simp add: Cons_nth_drop_Suc)
  then show ?thesis using a i by (cases "xs ! i") (auto split: option.splits)
qed

lemma dicts_de_Nil: "dicts_de xs = Some [] \<Longrightarrow> xs = []"
  by (cases xs rule: dicts_de.cases) (auto split: option.splits)

lemma dicts_de_map: "dicts_de (map EDict ds) = Some ds"
  by (induction ds) simp_all

lemma bucle_recorre:
  assumes "e \<noteq> c" and "e \<noteq> v" and "dicts_de (m c) = Some cat"
    and "dicts_de (drop i (m v)) = Some ven"
  shows "bucle F c v e i t m =
     (m(e := m e @ map EStr (fst (recorre F cat ven t []))), snd (recorre F cat ven t []))"
  using assms(3,4)
proof (induction ven arbitrary: i t m)
  case Nil
  from Nil(2) have "drop i (m v) = []" by (rule dicts_de_Nil)
  then have "\<not> i < length (m v)" by simp
  then show ?case by (simp add: bucle.simps)
next
  case (Cons item ven)
  from dicts_de_drop [OF Cons.prems(2)]
  have i: "i < length (m v)" and it: "m v ! i = EDict item"
    and rest: "dicts_de (drop (Suc i) (m v)) = Some ven"
    by simp_all
  have pm: "paso_mem F m c e item t =
     (case paso F cat item (t, []) of
        Inl x \<Rightarrow> Inl x
      | Inr st \<Rightarrow> Inr (fst st, m(e := m e @ map EStr (snd st))))"
    using Cons.prems(1) by (rule paso_mem_paso)
  show ?case
  proof (cases "paso F cat item (t, [])")
    case (Inl x)
    then show ?thesis
      using i it pm by (simp add: bucle.simps [of F c v e i t m])
  next
    case (Inr st)
    let ?m1 = "m(e := m e @ map EStr (snd st))"
    have c1: "dicts_de (?m1 c) = Some cat" using assms(1) Cons.prems(1) by simp
    have v1: "dicts_de (drop (Suc i) (?m1 v)) = Some ven" using assms(2) rest by simp
    have "bucle F c v e i t m = bucle F c v e (Suc i) (fst st) ?m1"
      using i it pm Inr by (simp add: bucle.simps [of F c v e i t m])
    also have "\<dots> = (?m1(e := ?m1 e @ map EStr (fst (recorre F cat ven (fst st) []))),
        snd (recorre F cat ven (fst st) []))"
      using c1 v1 by (rule Cons.IH)
    finally have b: "bucle F c v e i t m =
        (m(e := m e @ map EStr (snd st @ fst (recorre F cat ven (fst st) []))),
         snd (recorre F cat ven (fst st) []))"
      by simp
    have "recorre F cat (item # ven) t [] = recorre F cat ven (fst st) (snd st)"
      using Inr by simp
    also have "\<dots> = (snd st @ fst (recorre F cat ven (fst st) []),
        snd (recorre F cat ven (fst st) []))"
      by (rule recorre_desde_vacia)
    finally have "fst (recorre F cat (item # ven) t []) =
          snd st @ fst (recorre F cat ven (fst st) [])"
      and "snd (recorre F cat (item # ven) t []) = snd (recorre F cat ven (fst st) [])"
      by simp_all
    then show ?thesis
      by (simp only: b)
  qed
qed

lemma calcular_mem_calcular:
  assumes "e \<noteq> c" and "e \<noteq> v" and "m c = map EDict cat" and "m v = map EDict ven"
  shows "calcular_costo_total_mem F m (Some c) (Some v) e =
     (m(e := m e @ map EStr (fst (calcular_costo_total F (Some cat) (Some ven) []))),
      snd (calcular_costo_total F (Some cat) (Some ven) []))"
proof -
  have "dicts_de (m c) = Some cat" and "dicts_de (drop 0 (m v)) = Some ven"
    using assms(3,4) by (simp_all add: dicts_de_map)
  with assms(1,2) have "bucle F c v e 0 (JInt 0) m =
     (m(e := m e @ map EStr (fst (recorre F cat ven (JInt 0) []))),
      snd (recorre F cat ven (JInt 0) []))"
    by (rule bucle_recorre)
  then show ?thesis
    by (simp add: calcular_costo_total_mem_def calcular_costo_total_def)
qed

text \<open>
  C8. \<^verbatim>\<open>calcular_costo_total\<close> is deterministic. Take two runs on the same catalogue
  list and the same sales list, each with a fresh empty errors list (a list at an
  address that is not that of the catalogue or of the sales, set to \<open>[]\<close> before the
  run), the second run in the store the first one left. The two runs return the same
  value (or raise the same exception) and leave the same errors list. So the first run
  changes nothing the second depends on, and nothing depends on which list object
  receives the errors.
\<close>

theorem dos_ejecuciones:
  assumes "Some e1 \<noteq> catalogo" and "Some e1 \<noteq> ventas"
    and "Some e2 \<noteq> catalogo" and "Some e2 \<noteq> ventas"
    and "calcular_costo_total_mem F (m(e1 := [])) catalogo ventas e1 = (m1, r1)"
    and "calcular_costo_total_mem F (m1(e2 := [])) catalogo ventas e2 = (m2, r2)"
  shows "r2 = r1 \<and> m2 e2 = m1 e1"
proof (cases "\<exists>c v. catalogo = Some c \<and> ventas = Some v")
  case False
  then have "\<And>n e. calcular_costo_total_mem F n catalogo ventas e = (n, Inr JNull)"
    by (auto simp: calcular_costo_total_mem_def split: option.splits)
  then show ?thesis using assms(5,6) by auto
next
  case True
  then obtain c v where cv: "catalogo = Some c" "ventas = Some v" by blast
  have ne: "e1 \<noteq> c" "e1 \<noteq> v" "e2 \<noteq> c" "e2 \<noteq> v"
    using assms(1-4) cv by auto
  let ?m0 = "m(e1 := [])"
  have run1: "bucle F c v e1 0 (JInt 0) ?m0 = (m1, r1)"
    using assms(5) cv by (simp add: calcular_costo_total_mem_def)
  have run2: "bucle F c v e2 0 (JInt 0) (m1(e2 := [])) = (m2, r2)"
    using assms(6) cv by (simp add: calcular_costo_total_mem_def)
  obtain n0 r0 where a: "bucle F c v e1 0 (JInt 0) ?m0 = (?m0(e1 := ?m0 e1 @ n0), r0)"
    using bucle_indep [OF ne(1,2) ne(1,2), of ?m0 ?m0 F 0 "JInt 0"] by auto
  then have m1: "m1 = ?m0(e1 := n0)" using run1 by simp
  have same: "?m0 c = (m1(e2 := [])) c" "?m0 v = (m1(e2 := [])) v"
    using ne m1 by simp_all
  from bucle_indep [OF ne same, of F 0 "JInt 0"]
  obtain nuevos r where
    b: "bucle F c v e1 0 (JInt 0) ?m0 = (?m0(e1 := ?m0 e1 @ nuevos), r)"
       "bucle F c v e2 0 (JInt 0) (m1(e2 := [])) =
          ((m1(e2 := []))(e2 := (m1(e2 := [])) e2 @ nuevos), r)"
    by blast
  from b(1) run1 have "r1 = r" "m1 e1 = nuevos" by auto
  moreover from b(2) run2 have "r2 = r" "m2 e2 = nuevos" by auto
  ultimately show ?thesis by simp
qed

text \<open>
  Two runs on the example store, the first with a fresh list at address 2 and the second
  with a fresh list at address 3: each returns 14.0 and leaves the three messages.
\<close>

theorem dos_ejecuciones_testigo:
  "calcular_costo_total_mem flotantes_enteros (ej_memoria(2 := [])) (Some 0) (Some 1) 2 =
     (ej_memoria(2 := map EStr [msg_no_encontrado ''Eraser'', msg_sin_precio ''Ink'',
                                msg_sin_campo]),
      Inr (JFloat 14))
   \<and> snd (calcular_costo_total_mem flotantes_enteros
        ((ej_memoria(2 := map EStr [msg_no_encontrado ''Eraser'', msg_sin_precio ''Ink'',
                                    msg_sin_campo]))(3 := []))
        (Some 0) (Some 1) 3) = Inr (JFloat 14)
   \<and> fst (calcular_costo_total_mem flotantes_enteros
        ((ej_memoria(2 := map EStr [msg_no_encontrado ''Eraser'', msg_sin_precio ''Ink'',
                                    msg_sin_campo]))(3 := []))
        (Some 0) (Some 1) 3) 3 =
      map EStr [msg_no_encontrado ''Eraser'', msg_sin_precio ''Ink'', msg_sin_campo]"
proof -
  let ?F = "flotantes_enteros"
  let ?msgs = "[msg_no_encontrado ''Eraser'', msg_sin_precio ''Ink'', msg_sin_campo]"
  let ?m1 = "ej_memoria(2 := map EStr ?msgs)"
  have c: "(ej_memoria(2 := [])) 0 = map EDict ej_catalogo"
    and v: "(ej_memoria(2 := [])) 1 = map EDict ej_ventas"
    by (simp_all add: ej_memoria_def)
  have "calcular_costo_total_mem ?F (ej_memoria(2 := [])) (Some 0) (Some 1) 2 =
     ((ej_memoria(2 := []))(2 := (ej_memoria(2 := [])) 2
         @ map EStr (fst (calcular_costo_total ?F (Some ej_catalogo) (Some ej_ventas) []))),
      snd (calcular_costo_total ?F (Some ej_catalogo) (Some ej_ventas) []))"
    using c v by (intro calcular_mem_calcular) simp_all
  then have run1: "calcular_costo_total_mem ?F (ej_memoria(2 := [])) (Some 0) (Some 1) 2 =
      (?m1, Inr (JFloat 14))"
    by (simp add: ej_calculo)
  obtain m2 r2 where run2:
    "calcular_costo_total_mem ?F (?m1(3 := [])) (Some 0) (Some 1) 3 = (m2, r2)"
    by (cases "calcular_costo_total_mem ?F (?m1(3 := [])) (Some 0) (Some 1) 3")
  have "Some (2::nat) \<noteq> Some 0" "Some (2::nat) \<noteq> Some 1"
    "Some (3::nat) \<noteq> Some 0" "Some (3::nat) \<noteq> Some 1"
    by simp_all
  from dos_ejecuciones [OF this run1 run2]
  have "r2 = Inr (JFloat 14)" and "m2 3 = ?m1 2" by simp_all
  then show ?thesis using run1 run2 by simp
qed

text \<open>
  C10. When the catalogue or the sales argument is \<open>None\<close>, \<^verbatim>\<open>calcular_costo_total\<close>
  returns \<open>None\<close> and leaves the caller's list of errors as it was.
\<close>

theorem calcular_None:
  "catalogo = None \<or> ventas = None \<Longrightarrow>
   calcular_costo_total F catalogo ventas errores = (errores, Inr JNull)"
  by (auto simp: calcular_costo_total_def split: option.splits)

theorem calcular_None_testigo:
  "calcular_costo_total flotantes_enteros None (Some ej_ventas) [msg_sin_campo] =
     ([msg_sin_campo], Inr JNull)
   \<and> calcular_costo_total flotantes_enteros (Some ej_catalogo) None [msg_sin_campo] =
     ([msg_sin_campo], Inr JNull)"
proof -
  have a: "None = None \<or> Some ej_ventas = None" by simp
  have b: "Some ej_catalogo = None \<or> None = (None :: int pydict list option)" by simp
  show ?thesis
    using calcular_None [OF a, of flotantes_enteros "[msg_sin_campo]"]
      calcular_None [OF b, of flotantes_enteros "[msg_sin_campo]"]
    by simp
qed

section \<open>Properties of the report and of main\<close>

text \<open>The header line of the table, as printed.\<close>

lemma cabecera_texto:
  "cabecera =
     CHR 0x0A # ''Producto                                  Cantidad  Precio Unitario    Subtotal    ''"
  by code_simp

lemma py_mul_None: "es_none a \<or> es_none b \<Longrightarrow> py_mul F a b = Inl TypeError"
  by (cases a; cases b) (auto simp: py_mul_def)

lemma fila_None:
  assumes "cruce F catalogo (dget item ''Product'') = coincidente # resto"
    and "es_none (dget item ''Quantity'') \<or> es_none (dget coincidente ''price'')"
  shows "fila F catalogo item = Inl TypeError"
  using assms by (simp add: fila_def py_mul_None)

lemma filas_aborta:
  "item \<in> set ventas \<Longrightarrow> fila F catalogo item = Inl e \<Longrightarrow>
   \<exists>e'. snd (filas F catalogo ventas) = Some e'"
  by (induction ventas) (auto split: sum.splits)

lemma fila_sin_cruce:
  "cruce F catalogo (dget item ''Product'') = [] \<Longrightarrow> fila F catalogo item = Inr None"
  by (simp add: fila_def)

lemma fila_con_cruce:
  "cruce F catalogo (dget item ''Product'') \<noteq> [] \<Longrightarrow> fila F catalogo item = Inr r \<Longrightarrow>
   \<exists>p q pr s. r = Some (Fila p q pr s)"
  by (auto simp: fila_def Let_def split: list.splits sum.splits)

lemma filas_todas_filas:
  "filter es_fila (fst (filas F catalogo ventas)) = fst (filas F catalogo ventas)"
proof (induction ventas)
  case Nil
  show ?case by simp
next
  case (Cons item ventas)
  show ?case
  proof (cases "fila F catalogo item")
    case (Inl e)
    then show ?thesis by simp
  next
    case (Inr r)
    show ?thesis
    proof (cases "cruce F catalogo (dget item ''Product'') = []")
      case True
      then show ?thesis using Cons.IH by (simp add: fila_sin_cruce Let_def)
    next
      case False
      then obtain p q pr s where "r = Some (Fila p q pr s)"
        using fila_con_cruce Inr by blast
      then show ?thesis using Cons.IH Inr by (simp add: Let_def)
    qed
  qed
qed

text \<open>A table that is completed has one row for each record whose product has a
  catalogue entry.\<close>

lemma filas_cuenta:
  "snd (filas F catalogo ventas) = None \<Longrightarrow>
   length (fst (filas F catalogo ventas)) =
     length (filter (\<lambda>i. cruce F catalogo (dget i ''Product'') \<noteq> []) ventas)"
proof (induction ventas)
  case Nil
  show ?case by simp
next
  case (Cons item ventas)
  show ?case
  proof (cases "fila F catalogo item")
    case (Inl e)
    then show ?thesis using Cons.prems by simp
  next
    case (Inr r)
    then have rest: "snd (filas F catalogo ventas) = None"
      using Cons.prems by (simp add: Let_def)
    show ?thesis
    proof (cases "cruce F catalogo (dget item ''Product'') = []")
      case True
      then show ?thesis using Cons.IH [OF rest] by (simp add: fila_sin_cruce Let_def)
    next
      case False
      then obtain p q pr s where "r = Some (Fila p q pr s)"
        using fila_con_cruce Inr by blast
      then show ?thesis using Cons.IH [OF rest] Inr False by (simp add: Let_def)
    qed
  qed
qed

lemma escribir_archivo_snd:
  "snd (escribir_archivo F cf t ventas catalogo errores) = snd (filas F catalogo ventas)"
  by (simp add: escribir_archivo_def Let_def split: option.splits)

lemma escribir_archivo_filas:
  "filter es_fila (fst (escribir_archivo F cf t ventas catalogo errores)) =
     fst (filas F catalogo ventas)"
  by (simp add: escribir_archivo_def Let_def bloque_errores_def filas_todas_filas o_def
      split: option.splits)

lemmas evalua_fila =
  fila_def con_formato_def cruce_def py_eq_def dget_def py_mul_def flotantes_enteros_def
  digitos.simps

lemma ej_filas:
  "filas flotantes_enteros ej_catalogo ej_ventas =
     ([Fila (JStr ''Pen'') (JInt 4) (JFloat 2) (JFloat 8)], Some TypeError)"
  by (simp add: evalua_fila ej_catalogo_def ej_ventas_def)

lemma ej_filas_sin_tinta:
  "filas flotantes_enteros ej_catalogo ej_ventas_sin_tinta =
     ([Fila (JStr ''Pen'') (JInt 4) (JFloat 2) (JFloat 8),
       Fila (JStr ''Pen'') (JInt 0) (JFloat 2) (JFloat 0)], None)"
  by (simp add: evalua_fila ej_catalogo_def ej_ventas_sin_tinta_def)

text \<open>
  C9. \<^verbatim>\<open>escribir_archivo\<close>, and the loop of \<^verbatim>\<open>main\<close> that prints the same table,
  work from the sales and the catalogue, not from what \<^verbatim>\<open>calcular_costo_total\<close> found.
  A record whose Product has a catalogue entry is given a row without a check of its
  Quantity or of the entry's price: when the Quantity or the price is absent,
  \<open>quantity * price\<close> raises \<open>TypeError\<close> and the table, and with it the writing of the
  report, ends with an exception. A report that is completed holds one row for every
  record whose Product equals a catalogue title.
\<close>

theorem informe_sin_comprobaciones:
  "(item \<in> set ventas
      \<and> cruce F catalogo (dget item ''Product'') = coincidente # resto
      \<and> (es_none (dget item ''Quantity'') \<or> es_none (dget coincidente ''price''))
    \<longrightarrow> fila F catalogo item = Inl TypeError
        \<and> (\<exists>e. snd (filas F catalogo ventas) = Some e)
        \<and> (\<exists>e. snd (escribir_archivo F costo_form tiempo ventas catalogo errores) = Some e))
   \<and> (snd (escribir_archivo F costo_form tiempo ventas catalogo errores) = None
    \<longrightarrow> length (filter es_fila
            (fst (escribir_archivo F costo_form tiempo ventas catalogo errores))) =
          length (filter (\<lambda>i. cruce F catalogo (dget i ''Product'') \<noteq> []) ventas))"
  using fila_None [of F catalogo item coincidente resto]
    filas_aborta [of item ventas F catalogo TypeError]
  by (auto simp: escribir_archivo_snd escribir_archivo_filas filas_cuenta)

text \<open>
  On the example the third record, ink, has a catalogue entry without price: the report
  stops after the row of the first record. Without that record the report is completed
  with two rows, one of them for the record with Quantity 0, which
  \<^verbatim>\<open>calcular_costo_total\<close> had reported as an error.
\<close>

theorem informe_sin_comprobaciones_testigo:
  "fila flotantes_enteros ej_catalogo [''Product'' \<mapsto> JStr ''Ink'', ''Quantity'' \<mapsto> JInt 2] =
     Inl TypeError
   \<and> snd (escribir_archivo flotantes_enteros (Moneda 14) 0 ej_ventas ej_catalogo
        [msg_no_encontrado ''Eraser'', msg_sin_precio ''Ink'', msg_sin_campo]) = Some TypeError
   \<and> snd (escribir_archivo flotantes_enteros (Moneda 8) 0 ej_ventas_sin_tinta ej_catalogo
        [msg_no_encontrado ''Eraser'', msg_sin_campo]) = None
   \<and> length (filter es_fila
        (fst (escribir_archivo flotantes_enteros (Moneda 8) 0 ej_ventas_sin_tinta ej_catalogo
           [msg_no_encontrado ''Eraser'', msg_sin_campo]))) = 2"
proof -
  let ?ink = "[''Product'' \<mapsto> JStr ''Ink'', ''Quantity'' \<mapsto> JInt (2::int)]"
  let ?entry = "[''title'' \<mapsto> JStr ''Ink''] :: int pydict"
  have a: "?ink \<in> set ej_ventas" by (simp add: ej_ventas_def)
  have b: "cruce flotantes_enteros ej_catalogo (dget ?ink ''Product'') = ?entry # []"
    by (simp add: cruce_def ej_catalogo_def py_eq_def dget_def)
  have c: "es_none (dget ?ink ''Quantity'') \<or> es_none (dget ?entry ''price'')"
    by (simp add: dget_def)
  have d: "snd (escribir_archivo flotantes_enteros (Moneda 14) 0 ej_ventas ej_catalogo
        [msg_no_encontrado ''Eraser'', msg_sin_precio ''Ink'', msg_sin_campo]) = Some TypeError"
    by (simp add: escribir_archivo_snd ej_filas)
  have e: "snd (escribir_archivo flotantes_enteros (Moneda 8) 0 ej_ventas_sin_tinta ej_catalogo
        [msg_no_encontrado ''Eraser'', msg_sin_campo]) = None"
    by (simp add: escribir_archivo_snd ej_filas_sin_tinta)
  have f: "length (filter (\<lambda>i. cruce flotantes_enteros ej_catalogo (dget i ''Product'') \<noteq> [])
        ej_ventas_sin_tinta) = 2"
    by (simp add: cruce_def ej_catalogo_def ej_ventas_sin_tinta_def py_eq_def dget_def)
  have g: "fila flotantes_enteros ej_catalogo ?ink = Inl TypeError"
    using a b c
      informe_sin_comprobaciones [of ?ink ej_ventas flotantes_enteros ej_catalogo ?entry "[]"
        "Moneda 14" 0 "[msg_no_encontrado ''Eraser'', msg_sin_precio ''Ink'', msg_sin_campo]"]
    by blast
  have h: "length (filter es_fila
        (fst (escribir_archivo flotantes_enteros (Moneda 8) 0 ej_ventas_sin_tinta ej_catalogo
           [msg_no_encontrado ''Eraser'', msg_sin_campo]))) =
      length (filter (\<lambda>i. cruce flotantes_enteros ej_catalogo (dget i ''Product'') \<noteq> [])
        ej_ventas_sin_tinta)"
    using e
      informe_sin_comprobaciones [of ?ink ej_ventas_sin_tinta flotantes_enteros ej_catalogo
        ?entry "[]" "Moneda 8" 0 "[msg_no_encontrado ''Eraser'', msg_sin_campo]"]
    by blast
  show ?thesis
    using g d e h f by (simp only: simp_thms)
qed

text \<open>A run of \<^verbatim>\<open>main\<close> in which both documents are read and every record gives a row
  or none: the report is written and the process ends with status 0.\<close>

lemma ej_main_completo:
  "reporte (main flotantes_enteros ej_archivos 0
      [''computeSales.py'', ''Catalogo.json'', ''SinTinta.json'']) =
     Some (fst (escribir_archivo flotantes_enteros (Moneda 8) 0 ej_ventas_sin_tinta ej_catalogo
                  [msg_no_encontrado ''Eraser'', msg_sin_campo]))
   \<and> fin (main flotantes_enteros ej_archivos 0
      [''computeSales.py'', ''Catalogo.json'', ''SinTinta.json'']) = Sale 0"
proof -
  have a: "calcular_costo_total flotantes_enteros (Some ej_catalogo) (Some ej_ventas_sin_tinta) [] =
      ([msg_no_encontrado ''Eraser'', msg_sin_campo], Inr (JFloat 8))"
    by (simp add: evalua ej_catalogo_def ej_ventas_sin_tinta_def)
  have b: "costo_redondeado flotantes_enteros ej_catalogo ej_ventas_sin_tinta [] =
      ([msg_no_encontrado ''Eraser'', msg_sin_campo], Inr (JFloat 8))"
    by (simp add: costo_redondeado_def a) (simp add: flotantes_enteros_def)
  show ?thesis
    by (simp add: main_def leer_archivo_json_def ej_archivos_def b formato_moneda_def
        ej_filas_sin_tinta escribir_archivo_snd Let_def)
qed

text \<open>On the example ledger the table printed by \<^verbatim>\<open>main\<close> stops at the ink, before
  \<^verbatim>\<open>escribir_archivo\<close> is called: the report is not opened.\<close>

lemma ej_main_interrumpido:
  "reporte (main flotantes_enteros ej_archivos 0
      [''computeSales.py'', ''Catalogo.json'', ''Ventas.json'']) = None
   \<and> fin (main flotantes_enteros ej_archivos 0
      [''computeSales.py'', ''Catalogo.json'', ''Ventas.json'']) = Excepcion TypeError"
proof -
  have b: "costo_redondeado flotantes_enteros ej_catalogo ej_ventas [] =
      ([msg_no_encontrado ''Eraser'', msg_sin_precio ''Ink'', msg_sin_campo], Inr (JFloat 14))"
    by (simp add: costo_redondeado_def ej_calculo) (simp add: flotantes_enteros_def)
  show ?thesis
    by (simp add: main_def leer_archivo_json_def ej_archivos_def b formato_moneda_def
        ej_filas Let_def)
qed

text \<open>
  C4, as amended. A wrong number of arguments prints the usage line and exits with status
  1. A document that cannot be read (a file not found, a JSON decode failure) prints its
  own message, and \<^verbatim>\<open>main\<close> then returns without computing anything: the process
  ends with status 0. In none of these cases is SalesResults.txt written.
\<close>

theorem main_fatal:
  "(length argv \<noteq> 3 \<longrightarrow>
      main F archivos tiempo argv =
        \<lparr>salida = [Texto ''Utilice: !python computeSales.py Catalogo.json Ventas.json''],
         reporte = None, fin = Sale 1\<rparr>)
   \<and> (length argv = 3
       \<and> (snd (leer_archivo_json archivos (argv ! 1)) = None
          \<or> snd (leer_archivo_json archivos (argv ! 2)) = None) \<longrightarrow>
      main F archivos tiempo argv =
        \<lparr>salida = fst (leer_archivo_json archivos (argv ! 1))
                   @ fst (leer_archivo_json archivos (argv ! 2)),
         reporte = None, fin = Sale 0\<rparr>)
   \<and> (archivos ruta = NoEncontrado \<longrightarrow>
      leer_archivo_json archivos ruta =
        ([Texto (''Archivo '' @ [CHR 0x27] @ ruta @ [CHR 0x27]
                   @ '' no encontrado en la ruta indicada.'')], None))
   \<and> (archivos ruta = ErrorJSON e \<longrightarrow>
      leer_archivo_json archivos ruta =
        ([Texto (''Error en la decodificaci'' @ o_acento @ ''n con el archivo JSON: '' @ e)],
         None))"
  by (auto simp: main_def leer_archivo_json_def Let_def split: option.splits lectura.splits)

text \<open>The three fatal conditions on the example file system: one argument too few, a
  catalogue that does not exist, a ledger that is not JSON.\<close>

theorem main_fatal_testigo:
  "main flotantes_enteros ej_archivos 0 [''computeSales.py'', ''Catalogo.json''] =
     \<lparr>salida = [Texto ''Utilice: !python computeSales.py Catalogo.json Ventas.json''],
      reporte = None, fin = Sale 1\<rparr>
   \<and> main flotantes_enteros ej_archivos 0 [''computeSales.py'', ''NoExiste.json'', ''Ventas.json''] =
     \<lparr>salida = [Texto (''Archivo '' @ [CHR 0x27] @ ''NoExiste.json'' @ [CHR 0x27]
                          @ '' no encontrado en la ruta indicada.'')],
      reporte = None, fin = Sale 0\<rparr>
   \<and> main flotantes_enteros ej_archivos 0 [''computeSales.py'', ''Catalogo.json'', ''Roto.json''] =
     \<lparr>salida = [Texto (''Error en la decodificaci'' @ o_acento @ ''n con el archivo JSON: ''
                          @ ''Expecting value: line 1 column 1 (char 0)'')],
      reporte = None, fin = Sale 0\<rparr>"
proof -
  note t = main_fatal [where F = flotantes_enteros and archivos = ej_archivos and tiempo = 0]
  have a: "ej_archivos ''NoExiste.json'' = NoEncontrado" by (simp add: ej_archivos_def)
  have b: "ej_archivos ''Roto.json'' =
      ErrorJSON ''Expecting value: line 1 column 1 (char 0)''"
    by (simp add: ej_archivos_def)
  have c: "leer_archivo_json ej_archivos ''Catalogo.json'' = ([], Some ej_catalogo)"
    by (simp add: leer_archivo_json_def ej_archivos_def)
  have d: "leer_archivo_json ej_archivos ''Ventas.json'' = ([], Some ej_ventas)"
    by (simp add: leer_archivo_json_def ej_archivos_def)
  have n: "leer_archivo_json ej_archivos ''NoExiste.json'' =
      ([Texto (''Archivo '' @ [CHR 0x27] @ ''NoExiste.json'' @ [CHR 0x27]
                 @ '' no encontrado en la ruta indicada.'')], None)"
    using a t [where ruta = "''NoExiste.json''"] by blast
  have r: "leer_archivo_json ej_archivos ''Roto.json'' =
      ([Texto (''Error en la decodificaci'' @ o_acento @ ''n con el archivo JSON: ''
                 @ ''Expecting value: line 1 column 1 (char 0)'')], None)"
    using b t [where ruta = "''Roto.json''"] by blast
  have g1: "main flotantes_enteros ej_archivos 0 [''computeSales.py'', ''Catalogo.json''] =
     \<lparr>salida = [Texto ''Utilice: !python computeSales.py Catalogo.json Ventas.json''],
      reporte = None, fin = Sale 1\<rparr>"
    using t [where argv = "[''computeSales.py'', ''Catalogo.json'']"] by simp
  have g2: "main flotantes_enteros ej_archivos 0
        [''computeSales.py'', ''NoExiste.json'', ''Ventas.json''] =
     \<lparr>salida = [Texto (''Archivo '' @ [CHR 0x27] @ ''NoExiste.json'' @ [CHR 0x27]
                          @ '' no encontrado en la ruta indicada.'')],
      reporte = None, fin = Sale 0\<rparr>"
    using t [where argv = "[''computeSales.py'', ''NoExiste.json'', ''Ventas.json'']"]
    by (simp add: n d)
  have g3: "main flotantes_enteros ej_archivos 0
        [''computeSales.py'', ''Catalogo.json'', ''Roto.json''] =
     \<lparr>salida = [Texto (''Error en la decodificaci'' @ o_acento @ ''n con el archivo JSON: ''
                          @ ''Expecting value: line 1 column 1 (char 0)'')],
      reporte = None, fin = Sale 0\<rparr>"
    using t [where argv = "[''computeSales.py'', ''Catalogo.json'', ''Roto.json'']"]
    by (simp add: r c)
  show ?thesis
    using g1 g2 g3 by (simp only: simp_thms)
qed

text \<open>
  C4 as stated has every fatal condition end the process with a status other than 0.
  With a catalogue path that does not exist, \<^verbatim>\<open>leer_archivo_json\<close> returns \<open>None\<close>,
  \<^verbatim>\<open>main\<close> skips its body and returns, and the exit status is 0.
\<close>

theorem main_estado_cero_contraejemplo:
  "estado_salida (fin (main flotantes_enteros ej_archivos 0
      [''computeSales.py'', ''NoExiste.json'', ''Ventas.json''])) = 0"
  by (simp add: main_def leer_archivo_json_def ej_archivos_def)

end
